theory Spec2Isabelle
  imports Complex_Main
begin

section \<open>Library functions the agent calls\<close>

text \<open>
  Go strings are byte sequences; they are modelled as \<open>string\<close> (a list of \<open>char\<close>,
  one per byte). An \<open>error\<close> value is modelled by its message, \<open>None\<close> standing for Go's
  \<open>nil\<close> error. The functions of this section are those of Go's \<open>strings\<close>, \<open>fmt\<close>
  and \<open>path/filepath\<close> packages (Unix flavour) that the agent uses.
\<close>

type_synonym error = string

fun strings_HasPrefix :: "string \<Rightarrow> string \<Rightarrow> bool" where
  "strings_HasPrefix s [] = True"
| "strings_HasPrefix [] (p # ps) = False"
| "strings_HasPrefix (c # cs) (p # ps) = (c = p \<and> strings_HasPrefix cs ps)"

definition strings_TrimPrefix :: "string \<Rightarrow> string \<Rightarrow> string" where
  "strings_TrimPrefix s p = (if strings_HasPrefix s p then drop (length p) s else s)"

fun strings_Contains :: "string \<Rightarrow> string \<Rightarrow> bool" where
  "strings_Contains [] sub = (sub = [])"
| "strings_Contains (c # cs) sub = (strings_HasPrefix (c # cs) sub \<or> strings_Contains cs sub)"

text \<open>\<open>strings.Split\<close> and \<open>strings.ReplaceAll\<close> are only called with one-byte
  separators (\<open>"\n"\<close>, \<open>"/"\<close>), so the separator is a \<open>char\<close> here. Splitting always
  yields at least one piece.\<close>

fun strings_Split :: "string \<Rightarrow> char \<Rightarrow> string list" where
  "strings_Split [] sep = [[]]"
| "strings_Split (c # cs) sep =
     (if c = sep then [] # strings_Split cs sep
      else (case strings_Split cs sep of
              [] \<Rightarrow> [[c]]
            | l # ls \<Rightarrow> (c # l) # ls))"

fun strings_Join :: "string list \<Rightarrow> string \<Rightarrow> string" where
  "strings_Join [] sep = []"
| "strings_Join [x] sep = x"
| "strings_Join (x # y # ys) sep = x @ sep @ strings_Join (y # ys) sep"

definition strings_ReplaceAll :: "string \<Rightarrow> char \<Rightarrow> string \<Rightarrow> string" where
  "strings_ReplaceAll s old new = concat (map (\<lambda>c. if c = old then new else [c]) s)"

text \<open>\<open>strings.Fields\<close> splits around runs of white space. The model knows the six ASCII
  white-space bytes, which is what Go uses on a string without bytes above 0x7f.\<close>

definition isSpace :: "char \<Rightarrow> bool" where
  "isSpace c = (c \<in> set [CHR 0x09, CHR 0x0A, CHR 0x0B, CHR 0x0C, CHR 0x0D, CHR 0x20])"

fun fields_from :: "string \<Rightarrow> string \<Rightarrow> string list" where
  "fields_from cur [] = (if cur = [] then [] else [cur])"
| "fields_from cur (c # cs) =
     (if isSpace c then (if cur = [] then fields_from [] cs else cur # fields_from [] cs)
      else fields_from (cur @ [c]) cs)"

definition strings_Fields :: "string \<Rightarrow> string list" where
  "strings_Fields s = fields_from [] s"

text \<open>The verb \<open>%d\<close> of \<open>fmt.Sprintf\<close>: decimal digits, with a minus sign for a
  negative number.\<close>

definition digit_char :: "nat \<Rightarrow> char" where
  "digit_char d = ''0123456789'' ! d"

fun show_nat :: "nat \<Rightarrow> string" where
  "show_nat n = (if n < 10 then [digit_char n] else show_nat (n div 10) @ [digit_char (n mod 10)])"

declare show_nat.simps [simp del]

definition fmt_d :: "int \<Rightarrow> string" where
  "fmt_d i = (if i < 0 then CHR ''-'' # show_nat (nat (- i)) else show_nat (nat i))"

text \<open>\<open>filepath.Clean\<close> works on the elements of a path: empty elements and \<open>.\<close> are
  dropped, \<open>..\<close> removes the element before it (it is dropped at the root and kept at the
  start of a relative path), and the empty result is \<open>.\<close>.\<close>

fun clean_elems :: "bool \<Rightarrow> string list \<Rightarrow> string list \<Rightarrow> string list" where
  "clean_elems rooted stack [] = rev stack"
| "clean_elems rooted stack (e # es) =
     (if e = [] \<or> e = ''.'' then clean_elems rooted stack es
      else if e = ''..'' then
        (case stack of
           [] \<Rightarrow> if rooted then clean_elems rooted [] es else clean_elems rooted [''..''] es
         | t # ts \<Rightarrow> if t = ''..'' then clean_elems rooted (''..'' # t # ts) es
                     else clean_elems rooted ts es)
      else clean_elems rooted (e # stack) es)"

definition filepath_Clean :: "string \<Rightarrow> string" where
  "filepath_Clean path =
     (let rooted = strings_HasPrefix path ''/'';
          out = (if rooted then ''/'' else []) @
                strings_Join (clean_elems rooted [] (strings_Split path (CHR ''/''))) ''/''
      in if out = [] then ''.'' else out)"

definition filepath_Join :: "string \<Rightarrow> string \<Rightarrow> string" where
  "filepath_Join a b =
     (if a \<noteq> [] then filepath_Clean (strings_Join [a, b] ''/'')
      else if b \<noteq> [] then filepath_Clean b
      else [])"

definition filepath_Dir :: "string \<Rightarrow> string" where
  "filepath_Dir path = filepath_Clean (rev (dropWhile (\<lambda>c. c \<noteq> CHR ''/'') (rev path)))"

definition filepath_Base :: "string \<Rightarrow> string" where
  "filepath_Base path =
     (if path = [] then ''.''
      else let stripped = rev (dropWhile (\<lambda>c. c = CHR ''/'') (rev path));
               last_elem = rev (takeWhile (\<lambda>c. c \<noteq> CHR ''/'') (rev stripped))
           in if last_elem = [] then ''/'' else last_elem)"

section \<open>Configuration: the task definition\<close>

record Task =
  TaskID :: int
  SourcePath :: string
  CreateArchive :: bool
  ArchiveFormat :: string
  S3Endpoint :: string
  S3AccessKey :: string
  S3SecretKey :: string
  S3Bucket :: string
  S3Region :: string
  StorageType :: string
  StorageConfig :: string
  CleanupEnabled :: bool
  CleanupDays :: int
  IsDockerCompose :: bool
  DockerComposePath :: string
  ScheduleCron :: string

datatype level = INFO | WARN | ERROR

section \<open>The task scheduler (package cron)\<close>

text \<open>
  The state the scheduler works on: the trigger engine (\<open>robfig/cron\<close>: its live entries,
  each an entry id with the task its closure captured, and the counter it draws entry ids
  from), the manager's job table \<open>entries\<close> (task identifier to entry id), the text of
  the system crontab, and the log. What the outside world decides is a parameter: whether
  the engine's parser accepts a schedule expression, and whether \<open>crontab -\<close> installs
  the text it is given.
\<close>

record cron_env =
  cron_Parse :: "string \<Rightarrow> error option"
  crontab_install :: "string \<Rightarrow> error option"

record CronManager =
  cron_entries :: "(nat \<times> Task) list"
  cron_nextID :: nat
  entries :: "int \<rightharpoonup> nat"
  crontab :: string
  cron_log :: "(level \<times> string) list"

definition New :: "string \<Rightarrow> CronManager" where
  "New tab = \<lparr>cron_entries = [], cron_nextID = 0, entries = Map.empty, crontab = tab,
              cron_log = []\<rparr>"

definition logf :: "level \<Rightarrow> string \<Rightarrow> CronManager \<Rightarrow> CronManager" where
  "logf l msg cm = cm\<lparr>cron_log := cron_log cm @ [(l, msg)]\<rparr>"

text \<open>\<open>cron.Remove\<close> drops the entry with the given id, if the engine has one;
  \<open>cron.AddFunc\<close> parses the expression and, when it is accepted, schedules the closure
  under the next entry id.\<close>

definition cron_Remove :: "nat \<Rightarrow> CronManager \<Rightarrow> CronManager" where
  "cron_Remove entryID cm = cm\<lparr>cron_entries := filter (\<lambda>e. fst e \<noteq> entryID) (cron_entries cm)\<rparr>"

definition cron_AddFunc :: "cron_env \<Rightarrow> string \<Rightarrow> Task \<Rightarrow> CronManager \<Rightarrow> (nat \<times> error option) \<times> CronManager" where
  "cron_AddFunc env spec task cm =
     (case cron_Parse env spec of
        Some e \<Rightarrow> ((0, Some e), cm)
      | None \<Rightarrow>
          (let i = cron_nextID cm + 1
           in ((i, None), cm\<lparr>cron_nextID := i, cron_entries := cron_entries cm @ [(i, task)]\<rparr>)))"

definition task_marker :: "int \<Rightarrow> string" where
  "task_marker taskID = ''--task-id '' @ fmt_d taskID"

definition updateSystemCron :: "cron_env \<Rightarrow> Task \<Rightarrow> CronManager \<Rightarrow> CronManager" where
  "updateSystemCron env task cm =
     (let execPath = ''/usr/bin/backup-server-agent'';
          parts = strings_Fields (ScheduleCron task);
          cronExpr = (if length parts = 6 then strings_Join (tl parts) '' ''
                      else ScheduleCron task);
          cronLine = cronExpr @ '' '' @ execPath @ '' --task-id '' @ fmt_d (TaskID task);
          crontabContent = crontab cm;
          lines = strings_Split crontabContent (CHR 0x0A);
          marker = task_marker (TaskID task);
          newLines = filter (\<lambda>line. \<not> strings_Contains line marker) lines @ [cronLine];
          text = strings_Join newLines [CHR 0x0A] @ [CHR 0x0A]
      in case crontab_install env text of
           Some e \<Rightarrow> logf WARN (''Failed to update system crontab: '' @ e) cm
         | None \<Rightarrow> logf INFO (''Updated system crontab for task '' @ fmt_d (TaskID task))
                     (cm\<lparr>crontab := text\<rparr>))"

definition removeFromSystemCron :: "cron_env \<Rightarrow> int \<Rightarrow> CronManager \<Rightarrow> CronManager" where
  "removeFromSystemCron env taskID cm =
     (let lines = strings_Split (crontab cm) (CHR 0x0A);
          marker = task_marker taskID;
          newLines = filter (\<lambda>line. \<not> strings_Contains line marker) lines;
          text = strings_Join newLines [CHR 0x0A] @ [CHR 0x0A]
      in case crontab_install env text of
           Some e \<Rightarrow> logf WARN (''Failed to remove from system crontab: '' @ e) cm
         | None \<Rightarrow> logf INFO (''Removed task '' @ fmt_d taskID @ '' from system crontab'')
                     (cm\<lparr>crontab := text\<rparr>))"

definition AddTask :: "cron_env \<Rightarrow> Task \<Rightarrow> CronManager \<Rightarrow> CronManager" where
  "AddTask env task cm =
     (let cm1 = (case entries cm (TaskID task) of
                   Some entryID \<Rightarrow> cron_Remove entryID cm
                 | None \<Rightarrow> cm)
      in case cron_AddFunc env (ScheduleCron task) task cm1 of
           ((entryID, Some e), cm2) \<Rightarrow>
             logf ERROR (''Failed to add cron task '' @ fmt_d (TaskID task) @ '': '' @ e) cm2
         | ((entryID, None), cm2) \<Rightarrow>
             updateSystemCron env task
               (logf INFO (''Added cron task '' @ fmt_d (TaskID task) @ '' with schedule: ''
                            @ ScheduleCron task)
                  (cm2\<lparr>entries := (entries cm2)(TaskID task \<mapsto> entryID)\<rparr>)))"




text \<open>The live triggers of a task identifier: the engine's entries whose closure runs a
  task with that identifier.\<close>

definition live_triggers :: "int \<Rightarrow> CronManager \<Rightarrow> (nat \<times> Task) list" where
  "live_triggers taskID cm = filter (\<lambda>e. TaskID (snd e) = taskID) (cron_entries cm)"

section \<open>The backup ledger\<close>

text \<open>
  The records of \<open>backup_storage.go\<close>. An instant (\<open>time.Time\<close>) is an integer.
  \<open>ArchiveSizeMB\<close> is a \<open>float64\<close> in the source; the only arithmetic on it is a division
  of a file size by \<open>2^20\<close>, which is exact in binary floating point for every size below
  \<open>2^53\<close> bytes, so the field is a \<open>real\<close> here.

  The ledger file is modelled by what \<open>json.Unmarshal\<close> makes of its bytes: \<open>Json rs\<close> is
  the text \<open>json.MarshalIndent\<close> writes for the records \<open>rs\<close> (it decodes to \<open>rs\<close>
  without error), \<open>Malformed rs e\<close> is any other content (decoding reports \<open>e\<close>, having
  filled in \<open>rs\<close>). \<open>json.MarshalIndent\<close> cannot fail on a list of these records.
\<close>

type_synonym time = int

record BackupRecord =
  RecSourcePath :: string
  ArchiveName :: string
  BackupDate :: time
  S3UploadDate :: "time option"
  ArchiveSizeMB :: real
  RecS3Path :: string
  Status :: string

datatype file_data = Json "BackupRecord list" | Malformed "BackupRecord list" error

datatype write_result = Written | WriteFailed error "file_data option"

section \<open>The world a backup run acts on\<close>

text \<open>
  A file-system subtree as \<open>os.Lstat\<close> and the directory listing of \<open>filepath.Walk\<close>
  see it: a regular file, another non-directory (symbolic link, device, socket), a
  directory with its named entries, a directory whose listing fails, or a name whose
  \<open>Lstat\<close> fails (for the root: a missing path).
\<close>

datatype fsnode =
    Regular
  | Special
  | Dir "(string \<times> fsnode) list"
  | UnreadableDir error
  | NoStat error

datatype FileInfo = IsRegular | IsDir | IsOther

text \<open>The calls a run makes on the outside world, in the order it makes them: commands
  (name, arguments, working directory), changes to local files, and object-store
  requests.\<close>

datatype event =
    Exec string "string list" string
  | OsCreate string
  | OsRemove string
  | OsWriteFile string
  | S3BucketExists string
  | S3MakeBucket string string
  | S3PutObject string string string
  | S3ListObjects string
  | S3RemoveObject string string

record ObjectInfo =
  Key :: string
  LastModified :: time
  Err :: "error option"

text \<open>
  \<open>world\<close> is the state a run reads and changes: the calls made so far, the log, the
  archive files under \<open>/tmp\<close> (each with the names of the headers written to it), and
  the ledger file (\<open>None\<close>: it cannot be read). \<open>backup_env\<close> holds what the outside
  world answers to each call, as a function of the call's arguments, and the clock
  readings of the five places that call \<open>time.Now\<close>. \<open>filepath_Rel\<close> and the calendar
  arithmetic of \<open>AddDate\<close> are library functions taken as parameters.
\<close>

record world =
  trace :: "event list"
  logged :: "(level \<times> string) list"
  disk :: "string \<rightharpoonup> string list"
  ledger :: "file_data option"

record backup_env =
  exec_Run :: "string \<Rightarrow> string list \<Rightarrow> string \<Rightarrow> error option"
  os_Lstat :: "string \<Rightarrow> fsnode"
  os_Create :: "string \<Rightarrow> error option"
  os_Open :: "string \<Rightarrow> error option"
  os_Stat :: "string \<Rightarrow> error + int"
  os_Remove :: "string \<Rightarrow> error option"
  os_MkdirAll :: "string \<Rightarrow> error option"
  os_WriteFile :: "string \<Rightarrow> BackupRecord list \<Rightarrow> write_result"
  io_Copy :: "string \<Rightarrow> error option"
  tar_FileInfoHeader :: "string \<Rightarrow> error option"
  tar_WriteHeader :: "string \<Rightarrow> error option"
  filepath_Rel :: "string \<Rightarrow> string \<Rightarrow> error + string"
  minio_New :: "string \<Rightarrow> bool \<Rightarrow> error option"
  s3_BucketExists :: "string \<Rightarrow> error + bool"
  s3_MakeBucket :: "string \<Rightarrow> string \<Rightarrow> error option"
  s3_FPutObject :: "string \<Rightarrow> string \<Rightarrow> string \<Rightarrow> error option"
  s3_ListObjects :: "string \<Rightarrow> ObjectInfo list"
  s3_RemoveObject :: "string \<Rightarrow> string \<Rightarrow> error option"
  now_createArchive :: string
  now_BackupDate :: time
  now_uploadDate :: time
  now_uploadDirectory :: string
  now_cleanup :: time
  time_AddDate :: "time \<Rightarrow> int \<Rightarrow> time"

definition logw :: "level \<Rightarrow> string \<Rightarrow> world \<Rightarrow> world" where
  "logw l msg w = w\<lparr>logged := logged w @ [(l, msg)]\<rparr>"

definition emit :: "event \<Rightarrow> world \<Rightarrow> world" where
  "emit e w = w\<lparr>trace := trace w @ [e]\<rparr>"

subsection \<open>Reading and writing the ledger\<close>

definition backupStorageFile :: string where
  "backupStorageFile = ''/var/lib/backup-server-agent/backups.json''"

definition json_Unmarshal :: "file_data \<Rightarrow> BackupRecord list \<times> error option" where
  "json_Unmarshal data = (case data of Json rs \<Rightarrow> (rs, None) | Malformed rs e \<Rightarrow> (rs, Some e))"

text \<open>\<open>os.WriteFile(backupStorageFile, data, 0644)\<close> of the marshalled records: on
  success the file holds them; a failed write leaves behind what the outside world
  says.\<close>

definition write_ledger :: "backup_env \<Rightarrow> BackupRecord list \<Rightarrow> world \<Rightarrow> error option \<times> world" where
  "write_ledger env records w =
     (let w1 = emit (OsWriteFile backupStorageFile) w
      in case os_WriteFile env backupStorageFile records of
           Written \<Rightarrow> (None, w1\<lparr>ledger := Some (Json records)\<rparr>)
         | WriteFailed e left \<Rightarrow> (Some e, w1\<lparr>ledger := left\<rparr>))"

definition SaveBackupRecord :: "backup_env \<Rightarrow> BackupRecord \<Rightarrow> world \<Rightarrow> error option \<times> world" where
  "SaveBackupRecord env rec w =
     (case os_MkdirAll env (filepath_Dir backupStorageFile) of
        Some e \<Rightarrow> (Some e, w)
      | None \<Rightarrow>
          (let records = (case ledger w of
                            Some data \<Rightarrow> fst (json_Unmarshal data)
                          | None \<Rightarrow> [])
           in write_ledger env (records @ [rec]) w))"

definition GetBackupRecords :: "world \<Rightarrow> BackupRecord list \<times> error option" where
  "GetBackupRecords w = (case ledger w of None \<Rightarrow> ([], None) | Some data \<Rightarrow> json_Unmarshal data)"

text \<open>The loop of \<open>UpdateBackupRecord\<close>: the first record with the archive name gets
  the destination path, the upload date and the status, and the loop ends.\<close>

fun mark_uploaded :: "string \<Rightarrow> string \<Rightarrow> time \<Rightarrow> BackupRecord list \<Rightarrow> BackupRecord list" where
  "mark_uploaded archiveName s3Path uploadDate [] = []"
| "mark_uploaded archiveName s3Path uploadDate (r # rs) =
     (if ArchiveName r = archiveName
      then r\<lparr>RecS3Path := s3Path, S3UploadDate := Some uploadDate, Status := ''success''\<rparr> # rs
      else r # mark_uploaded archiveName s3Path uploadDate rs)"

definition UpdateBackupRecord :: "backup_env \<Rightarrow> string \<Rightarrow> string \<Rightarrow> time \<Rightarrow> world \<Rightarrow> error option \<times> world" where
  "UpdateBackupRecord env archiveName s3Path uploadDate w =
     (case GetBackupRecords w of
        (records, Some e) \<Rightarrow> (Some e, w)
      | (records, None) \<Rightarrow> write_ledger env (mark_uploaded archiveName s3Path uploadDate records) w)"

section \<open>The backup run (backup.go)\<close>

subsection \<open>Walking a tree\<close>

text \<open>
  \<open>filepath.Walk(root, fn)\<close>: \<open>Lstat\<close> the root and call \<open>fn\<close> on every name below
  it, a directory before its entries. \<open>fn\<close> gets the path, the file information (none
  when \<open>Lstat\<close> failed) and the error of \<open>Lstat\<close> or of the directory listing; an error
  that \<open>fn\<close> returns ends the walk and is the walk's result. The callback's captured
  variables are the state \<open>'s\<close>. No callback of the agent returns \<open>SkipDir\<close> or
  \<open>SkipAll\<close>, so these are left out.
\<close>

type_synonym 's WalkFunc = "string \<Rightarrow> FileInfo option \<Rightarrow> error option \<Rightarrow> 's \<Rightarrow> error option \<times> 's"

fun walk :: "'s WalkFunc \<Rightarrow> string \<Rightarrow> fsnode \<Rightarrow> 's \<Rightarrow> error option \<times> 's"
  and walk_names :: "'s WalkFunc \<Rightarrow> string \<Rightarrow> (string \<times> fsnode) list \<Rightarrow> 's \<Rightarrow> error option \<times> 's"
where
  "walk fn path Regular s = fn path (Some IsRegular) None s"
| "walk fn path Special s = fn path (Some IsOther) None s"
| "walk fn path (NoStat e) s = fn path None (Some e) s"
| "walk fn path (UnreadableDir e) s = fn path (Some IsDir) (Some e) s"
| "walk fn path (Dir names) s =
     (case fn path (Some IsDir) None s of
        (Some err1, s1) \<Rightarrow> (Some err1, s1)
      | (None, s1) \<Rightarrow> walk_names fn path names s1)"
| "walk_names fn path [] s = (None, s)"
| "walk_names fn path (entry # names) s =
     (case walk fn (filepath_Join path (fst entry)) (snd entry) s of
        (Some err, s1) \<Rightarrow> (Some err, s1)
      | (None, s1) \<Rightarrow> walk_names fn path names s1)"

definition filepath_Walk :: "backup_env \<Rightarrow> string \<Rightarrow> 's WalkFunc \<Rightarrow> 's \<Rightarrow> error option \<times> 's" where
  "filepath_Walk env rootPath fn s = walk fn rootPath (os_Lstat env rootPath) s"

text \<open>\<open>countFiles\<close>: the callback counts the regular files it is shown without an
  error and always returns \<open>nil\<close>; the walk's own result is dropped.\<close>

definition count_entry :: "int WalkFunc" where
  "count_entry p info err count =
     (None, if err = None \<and> info = Some IsRegular then count + 1 else count)"

definition countFiles :: "backup_env \<Rightarrow> string \<Rightarrow> int" where
  "countFiles env path = snd (filepath_Walk env path count_entry 0)"

subsection \<open>Building the archive\<close>

definition archive_entry :: "backup_env \<Rightarrow> string \<Rightarrow> (string list) WalkFunc" where
  "archive_entry env sourcePath path info err headers =
     (case err of
        Some e \<Rightarrow> (Some e, headers)
      | None \<Rightarrow>
     (case tar_FileInfoHeader env path of
        Some e \<Rightarrow> (Some e, headers)
      | None \<Rightarrow>
     (case filepath_Rel env sourcePath path of
        Inl e \<Rightarrow> (Some e, headers)
      | Inr relPath \<Rightarrow>
     (case tar_WriteHeader env relPath of
        Some e \<Rightarrow> (Some e, headers)
      | None \<Rightarrow>
          (let headers1 = headers @ [relPath]
           in if info \<noteq> Some IsRegular then (None, headers1)
              else (case os_Open env path of
                      Some e \<Rightarrow> (Some e, headers1)
                    | None \<Rightarrow> (io_Copy env path, headers1)))))))"

definition createArchive :: "backup_env \<Rightarrow> string \<Rightarrow> string \<Rightarrow> string \<Rightarrow> world \<Rightarrow> (string \<times> string \<times> error option) \<times> world" where
  "createArchive env sourcePath format serverIP w =
     (let timestamp = now_createArchive env;
          safePath = strings_ReplaceAll (strings_TrimPrefix sourcePath ''/'') (CHR ''/'') ''_'';
          archiveName = serverIP @ ''_'' @ safePath @ ''_'' @ timestamp @ ''.'' @ format;
          archivePath = filepath_Join ''/tmp'' archiveName;
          w1 = logw INFO (''Creating archive: '' @ archivePath @ '' from '' @ sourcePath) w;
          w2 = emit (OsCreate archivePath) w1
      in case os_Create env archivePath of
           Some e \<Rightarrow> (([], [], Some e), w2)
         | None \<Rightarrow>
             (case filepath_Walk env sourcePath (archive_entry env sourcePath) [] of
                (Some e, headers) \<Rightarrow> (([], [], Some e), w2\<lparr>disk := (disk w2)(archivePath \<mapsto> headers)\<rparr>)
              | (None, headers) \<Rightarrow>
                  ((archivePath, archiveName, None), w2\<lparr>disk := (disk w2)(archivePath \<mapsto> headers)\<rparr>)))"

subsection \<open>The object store\<close>

text \<open>The start of the three entry points: the endpoint without its scheme, TLS when
  the scheme was \<open>https://\<close>, and the client.\<close>

definition s3_client :: "backup_env \<Rightarrow> Task \<Rightarrow> error option" where
  "s3_client env task =
     (let endpoint = strings_TrimPrefix (strings_TrimPrefix (S3Endpoint task) ''http://'') ''https://'';
          useSSL = strings_HasPrefix (S3Endpoint task) ''https://''
      in minio_New env endpoint useSSL)"

text \<open>The bucket check of \<open>uploadToS3\<close> (lines 251 to 261) and of
  \<open>uploadDirectoryToS3\<close> (lines 294 to 303), the same statements in both: ask whether
  the bucket exists, and create it with the task's region when it does not.\<close>

definition ensure_bucket :: "backup_env \<Rightarrow> Task \<Rightarrow> world \<Rightarrow> error option \<times> world" where
  "ensure_bucket env task w =
     (let w1 = emit (S3BucketExists (S3Bucket task)) w
      in case s3_BucketExists env (S3Bucket task) of
           Inl err \<Rightarrow> (Some (''failed to check bucket: '' @ err), w1)
         | Inr exists \<Rightarrow>
             if \<not> exists then
               (let w2 = emit (S3MakeBucket (S3Bucket task) (S3Region task)) w1
                in case s3_MakeBucket env (S3Bucket task) (S3Region task) of
                     Some err \<Rightarrow> (Some (''failed to create bucket: '' @ err), w2)
                   | None \<Rightarrow> (None, w2))
             else (None, w1))"

definition uploadToS3 :: "backup_env \<Rightarrow> Task \<Rightarrow> string \<Rightarrow> world \<Rightarrow> (string \<times> error option) \<times> world" where
  "uploadToS3 env task archivePath w =
     (let w1 = logw INFO (''Uploading to S3: '' @ S3Endpoint task @ ''/'' @ S3Bucket task) w
      in case s3_client env task of
           Some err \<Rightarrow> (([], Some (''failed to create S3 client: '' @ err)), w1)
         | None \<Rightarrow>
             (case ensure_bucket env task w1 of
                (Some err, w2) \<Rightarrow> (([], Some err), w2)
              | (None, w2) \<Rightarrow>
                  (let objectName = filepath_Base archivePath;
                       w3 = emit (S3PutObject (S3Bucket task) objectName archivePath) w2
                   in case s3_FPutObject env (S3Bucket task) objectName archivePath of
                        Some err \<Rightarrow> (([], Some (''failed to upload file: '' @ err)), w3)
                      | None \<Rightarrow>
                          (let s3Path = ''s3://'' @ S3Bucket task @ ''/'' @ objectName
                           in ((s3Path, None), logw INFO (''Successfully uploaded to '' @ s3Path) w3)))))"

definition upload_entry :: "backup_env \<Rightarrow> Task \<Rightarrow> string \<Rightarrow> string \<Rightarrow> string \<Rightarrow> world WalkFunc" where
  "upload_entry env task sourcePath baseName timestamp path info err w =
     (case err of
        Some e \<Rightarrow> (Some e, w)
      | None \<Rightarrow>
          if info \<noteq> Some IsRegular then (None, w)
          else (case filepath_Rel env sourcePath path of
                  Inl e \<Rightarrow> (Some e, w)
                | Inr relPath \<Rightarrow>
                    (let objectName = baseName @ ''_'' @ timestamp @ ''/'' @ relPath;
                         w1 = emit (S3PutObject (S3Bucket task) objectName path) w
                     in case s3_FPutObject env (S3Bucket task) objectName path of
                          Some e \<Rightarrow> (Some (''failed to upload '' @ path @ '': '' @ e), w1)
                        | None \<Rightarrow> (None, w1))))"

definition uploadDirectoryToS3 :: "backup_env \<Rightarrow> Task \<Rightarrow> string \<Rightarrow> world \<Rightarrow> (string \<times> error option) \<times> world" where
  "uploadDirectoryToS3 env task sourcePath w =
     (let w1 = logw INFO (''Uploading directory to S3: '' @ S3Endpoint task @ ''/'' @ S3Bucket task) w
      in case s3_client env task of
           Some err \<Rightarrow> (([], Some (''failed to create S3 client: '' @ err)), w1)
         | None \<Rightarrow>
             (case ensure_bucket env task w1 of
                (Some err, w2) \<Rightarrow> (([], Some err), w2)
              | (None, w2) \<Rightarrow>
                  (let timestamp = now_uploadDirectory env;
                       baseName = filepath_Base sourcePath
                   in case filepath_Walk env sourcePath
                             (upload_entry env task sourcePath baseName timestamp) w2 of
                        (Some err, w3) \<Rightarrow> (([], Some err), w3)
                      | (None, w3) \<Rightarrow>
                          (let s3Path = ''s3://'' @ S3Bucket task @ ''/'' @ baseName @ ''_''
                                          @ timestamp @ ''/''
                           in ((s3Path, None),
                               logw INFO (''Successfully uploaded directory to '' @ s3Path) w3)))))"

text \<open>The loop of \<open>cleanupOldBackups\<close> over the listed objects; \<open>delete_old\<close> is what it
  does with an object that is older than the cut-off.\<close>

definition delete_old :: "backup_env \<Rightarrow> string \<Rightarrow> ObjectInfo \<Rightarrow> world \<Rightarrow> world" where
  "delete_old env bucket object w =
     (let w1 = logw INFO (''Deleting old backup: '' @ Key object) w;
          w2 = emit (S3RemoveObject bucket (Key object)) w1
      in case s3_RemoveObject env bucket (Key object) of
           Some err \<Rightarrow> logw WARN (''Failed to delete '' @ Key object @ '': '' @ err) w2
         | None \<Rightarrow> w2)"

fun sweep :: "backup_env \<Rightarrow> string \<Rightarrow> time \<Rightarrow> ObjectInfo list \<Rightarrow> world \<Rightarrow> world" where
  "sweep env bucket cutoffTime [] w = w"
| "sweep env bucket cutoffTime (object # objects) w =
     (if Err object \<noteq> None then sweep env bucket cutoffTime objects w
      else if LastModified object < cutoffTime
      then sweep env bucket cutoffTime objects (delete_old env bucket object w)
      else sweep env bucket cutoffTime objects w)"

definition cleanupOldBackups :: "backup_env \<Rightarrow> Task \<Rightarrow> world \<Rightarrow> error option \<times> world" where
  "cleanupOldBackups env task w =
     (let w1 = logw INFO (''Cleaning up backups older than '' @ fmt_d (CleanupDays task) @ '' days'') w
      in case s3_client env task of
           Some err \<Rightarrow> (Some err, w1)
         | None \<Rightarrow>
             (let cutoffTime = time_AddDate env (now_cleanup env) (- CleanupDays task);
                  w2 = emit (S3ListObjects (S3Bucket task)) w1
              in (None, sweep env (S3Bucket task) cutoffTime (s3_ListObjects env (S3Bucket task)) w2)))"

subsection \<open>ExecuteBackup\<close>

record BackupResult =
  Success :: bool
  ArchivePath :: string
  ArchiveSize :: int
  FilesCount :: int
  ErrorMsg :: string
  ResS3Path :: string

definition empty_result :: BackupResult where
  "empty_result = \<lparr>Success = False, ArchivePath = [], ArchiveSize = 0, FilesCount = 0,
                    ErrorMsg = [], ResS3Path = []\<rparr>"

definition run_cmd :: "backup_env \<Rightarrow> string \<Rightarrow> string list \<Rightarrow> string \<Rightarrow> world \<Rightarrow> error option \<times> world" where
  "run_cmd env name args dir w = (exec_Run env name args dir, emit (Exec name args dir) w)"

text \<open>Lines 35 to 49: stopping the compose project, with the old command as a fall-back.\<close>

definition compose_down :: "backup_env \<Rightarrow> Task \<Rightarrow> world \<Rightarrow> world" where
  "compose_down env task w =
     (let w1 = logw INFO (''Stopping Docker Compose project: '' @ DockerComposePath task) w;
          dockerComposeDir = filepath_Dir (DockerComposePath task)
      in case run_cmd env ''docker'' [''compose'', ''-f'', DockerComposePath task, ''down''] dockerComposeDir w1 of
           (None, w2) \<Rightarrow> w2
         | (Some err, w2) \<Rightarrow>
             (case run_cmd env ''docker-compose'' [''-f'', DockerComposePath task, ''down''] dockerComposeDir w2 of
                (None, w3) \<Rightarrow> w3
              | (Some err, w3) \<Rightarrow> logw WARN (''Failed to stop docker-compose: '' @ err) w3))"

text \<open>Lines 51 to 63: the deferred function that starts the project again.\<close>

definition compose_up :: "backup_env \<Rightarrow> Task \<Rightarrow> world \<Rightarrow> world" where
  "compose_up env task w =
     (let w1 = logw INFO (''Starting Docker Compose project: '' @ DockerComposePath task) w;
          dockerComposeDir = filepath_Dir (DockerComposePath task)
      in case run_cmd env ''docker'' [''compose'', ''-f'', DockerComposePath task, ''up'', ''-d''] dockerComposeDir w1 of
           (None, w2) \<Rightarrow> w2
         | (Some err, w2) \<Rightarrow>
             (case run_cmd env ''docker-compose'' [''-f'', DockerComposePath task, ''up'', ''-d''] dockerComposeDir w2 of
                (None, w3) \<Rightarrow> w3
              | (Some err, w3) \<Rightarrow> logw ERROR (''Failed to start docker-compose: '' @ err) w3))"

text \<open>Lines 94 to 100: the size is set in the first record with the archive name, in the
  slice \<open>GetBackupRecords\<close> returned.\<close>

fun backfill_size :: "string \<Rightarrow> real \<Rightarrow> BackupRecord list \<Rightarrow> BackupRecord list" where
  "backfill_size archiveName mb [] = []"
| "backfill_size archiveName mb (r # rs) =
     (if ArchiveName r = archiveName then r\<lparr>ArchiveSizeMB := mb\<rparr> # rs
      else r # backfill_size archiveName mb rs)"

text \<open>Lines 66 to 108: the archive, its ledger record, its size and the file count. The
  result is the run's result so far, the archive name and the error that ends the run.
  The slice \<open>records\<close> of lines 94 to 100 is a local variable that nothing reads after
  the loop.\<close>

definition archive_step :: "backup_env \<Rightarrow> Task \<Rightarrow> string \<Rightarrow> BackupResult \<Rightarrow> world \<Rightarrow> (BackupResult \<times> string \<times> error option) \<times> world" where
  "archive_step env task serverIP result w =
     (if CreateArchive task then
        (case createArchive env (SourcePath task) (ArchiveFormat task) serverIP w of
           ((archivePath, name, Some err), w1) \<Rightarrow>
             ((result\<lparr>ErrorMsg := ''Failed to create archive: '' @ err\<rparr>, [], Some err), w1)
         | ((archivePath, name, None), w1) \<Rightarrow>
             (let result1 = result\<lparr>ArchivePath := archivePath\<rparr>;
                  archiveName = name;
                  backupRecord = \<lparr>RecSourcePath = SourcePath task, ArchiveName = archiveName,
                                  BackupDate = now_BackupDate env, S3UploadDate = None,
                                  ArchiveSizeMB = 0, RecS3Path = [], Status = ''creating''\<rparr>;
                  w2 = (case SaveBackupRecord env backupRecord w1 of
                          (Some err, w') \<Rightarrow> logw WARN (''Failed to save backup record: '' @ err) w'
                        | (None, w') \<Rightarrow> w');
                  result2 = (case os_Stat env (ArchivePath result1) of
                               Inl err \<Rightarrow> result1
                             | Inr archiveSize \<Rightarrow>
                                 (let result' = result1\<lparr>ArchiveSize := archiveSize\<rparr>;
                                      records = backfill_size archiveName
                                                  (real_of_int (ArchiveSize result') / (1024 * 1024))
                                                  (fst (GetBackupRecords w2))
                                  in result'));
                  result3 = result2\<lparr>FilesCount := countFiles env (SourcePath task)\<rparr>
              in ((result3, archiveName, None), w2)))
      else ((result\<lparr>FilesCount := countFiles env (SourcePath task)\<rparr>, [], None), w))"

text \<open>Lines 110 to 141: the upload, then the ledger update and the removal of the local
  archive.\<close>

definition upload_step :: "backup_env \<Rightarrow> Task \<Rightarrow> string \<Rightarrow> BackupResult \<Rightarrow> world \<Rightarrow> (BackupResult \<times> error option) \<times> world" where
  "upload_step env task archiveName result w =
     (if S3Endpoint task \<noteq> [] \<and> S3Bucket task \<noteq> [] then
        if ArchivePath result \<noteq> [] then
          (case uploadToS3 env task (ArchivePath result) w of
             ((s3Path, Some err), w1) \<Rightarrow>
               ((result\<lparr>ErrorMsg := ''Failed to upload to S3: '' @ err\<rparr>, Some err), w1)
           | ((s3Path, None), w1) \<Rightarrow>
               (let result1 = result\<lparr>ResS3Path := s3Path\<rparr>;
                    w2 = (case UpdateBackupRecord env archiveName s3Path (now_uploadDate env) w1 of
                            (Some err, w') \<Rightarrow> logw WARN (''Failed to update backup record: '' @ err) w'
                          | (None, w') \<Rightarrow> w');
                    w3 = emit (OsRemove (ArchivePath result1)) w2;
                    w4 = (case os_Remove env (ArchivePath result1) of
                            Some err \<Rightarrow> logw WARN (''Failed to remove archive after upload: '' @ err) w3
                          | None \<Rightarrow>
                              logw INFO (''Archive removed after successful upload: '' @ ArchivePath result1)
                                (w3\<lparr>disk := (disk w3)(ArchivePath result1 := None)\<rparr>))
                in ((result1, None), w4)))
        else
          (case uploadDirectoryToS3 env task (SourcePath task) w of
             ((s3Path, Some err), w1) \<Rightarrow>
               ((result\<lparr>ErrorMsg := ''Failed to upload directory to S3: '' @ err\<rparr>, Some err), w1)
           | ((s3Path, None), w1) \<Rightarrow> ((result\<lparr>ResS3Path := s3Path\<rparr>, None), w1))
      else ((result, None), w))"

text \<open>Lines 143 to 148.\<close>

definition cleanup_step :: "backup_env \<Rightarrow> Task \<Rightarrow> world \<Rightarrow> world" where
  "cleanup_step env task w =
     (if CleanupEnabled task then
        (case cleanupOldBackups env task w of
           (Some err, w1) \<Rightarrow> logw WARN (''Failed to cleanup old backups: '' @ err) w1
         | (None, w1) \<Rightarrow> w1)
      else w)"

text \<open>Lines 66 to 151, the function body after the compose project was stopped.\<close>

definition ExecuteBackup_body :: "backup_env \<Rightarrow> Task \<Rightarrow> string \<Rightarrow> world \<Rightarrow> (BackupResult \<times> error option) \<times> world" where
  "ExecuteBackup_body env task serverIP w =
     (case archive_step env task serverIP empty_result w of
        ((result, archiveName, Some err), w1) \<Rightarrow> ((result, Some err), w1)
      | ((result, archiveName, None), w1) \<Rightarrow>
          (case upload_step env task archiveName result w1 of
             ((result1, Some err), w2) \<Rightarrow> ((result1, Some err), w2)
           | ((result1, None), w2) \<Rightarrow>
               ((result1\<lparr>Success := True\<rparr>, None), cleanup_step env task w2)))"

text \<open>The whole function. The \<open>defer\<close> of line 51 is registered in the function's own
  scope, so the deferred start runs when \<open>ExecuteBackup\<close> returns, on every return
  path, after the values to return were fixed.\<close>

definition ExecuteBackup :: "backup_env \<Rightarrow> Task \<Rightarrow> string \<Rightarrow> world \<Rightarrow> (BackupResult \<times> error option) \<times> world" where
  "ExecuteBackup env task serverIP w =
     (if IsDockerCompose task \<and> DockerComposePath task \<noteq> [] then
        (case ExecuteBackup_body env task serverIP (compose_down env task w) of
           (r, w1) \<Rightarrow> (r, compose_up env task w1))
      else ExecuteBackup_body env task serverIP w)"

section \<open>Notions the properties are stated with\<close>


text \<open>The first statement of \<open>AddTask\<close> on its own: retire the trigger the job table
  holds for the identifier.\<close>

definition retire :: "int \<Rightarrow> CronManager \<Rightarrow> CronManager" where
  "retire t cm = (case entries cm t of Some entryID \<Rightarrow> cron_Remove entryID cm | None \<Rightarrow> cm)"

text \<open>The regular files \<open>filepath.Walk\<close> can reach from a node: those under directories
  that can be listed, at names that can be stat'ed.\<close>

fun regular_files :: "fsnode \<Rightarrow> nat"
  and regular_files_in :: "(string \<times> fsnode) list \<Rightarrow> nat"
where
  "regular_files Regular = 1"
| "regular_files Special = 0"
| "regular_files (NoStat e) = 0"
| "regular_files (UnreadableDir e) = 0"
| "regular_files (Dir names) = regular_files_in names"
| "regular_files_in [] = 0"
| "regular_files_in (entry # names) = regular_files (snd entry) + regular_files_in names"

text \<open>Kinds of calls.\<close>

fun is_exec :: "event \<Rightarrow> bool" where
  "is_exec (Exec name args dir) = True"
| "is_exec _ = False"

text \<open>A command that starts the compose project ends in \<open>up -d\<close>, one that stops it
  ends in \<open>down\<close>.\<close>

fun is_compose_up :: "event \<Rightarrow> bool" where
  "is_compose_up (Exec name args dir) = (take 2 (rev args) = [''-d'', ''up''])"
| "is_compose_up _ = False"

fun is_compose_down :: "event \<Rightarrow> bool" where
  "is_compose_down (Exec name args dir) = (take 1 (rev args) = [''down''])"
| "is_compose_down _ = False"

fun is_object_store :: "event \<Rightarrow> bool" where
  "is_object_store (S3BucketExists b) = True"
| "is_object_store (S3MakeBucket b r) = True"
| "is_object_store (S3PutObject b k p) = True"
| "is_object_store (S3ListObjects b) = True"
| "is_object_store (S3RemoveObject b k) = True"
| "is_object_store _ = False"

fun is_put :: "event \<Rightarrow> bool" where
  "is_put (S3PutObject b k p) = True"
| "is_put _ = False"

fun is_remove_object :: "event \<Rightarrow> bool" where
  "is_remove_object (S3RemoveObject b k) = True"
| "is_remove_object _ = False"


fun is_local_change :: "event \<Rightarrow> bool" where
  "is_local_change (OsCreate p) = True"
| "is_local_change (OsRemove p) = True"
| "is_local_change (OsWriteFile p) = True"
| "is_local_change _ = False"

text \<open>\<open>extends P w w'\<close>: the world \<open>w'\<close> was reached from \<open>w\<close> by calls that all
  satisfy \<open>P\<close>.\<close>

definition extends :: "(event \<Rightarrow> bool) \<Rightarrow> world \<Rightarrow> world \<Rightarrow> bool" where
  "extends P w w' \<longleftrightarrow> (\<exists>evs. trace w' = trace w @ evs \<and> list_all P evs)"

text \<open>The service guard of \<open>ExecuteBackup\<close>: what the function does on entry and what its
  deferred function does on return.\<close>

definition guarded :: "Task \<Rightarrow> bool" where
  "guarded task \<longleftrightarrow> IsDockerCompose task \<and> DockerComposePath task \<noteq> []"

definition enter :: "backup_env \<Rightarrow> Task \<Rightarrow> world \<Rightarrow> world" where
  "enter env task w = (if guarded task then compose_down env task w else w)"

definition leave :: "backup_env \<Rightarrow> Task \<Rightarrow> world \<Rightarrow> world" where
  "leave env task w = (if guarded task then compose_up env task w else w)"

text \<open>The statement of claim C2 on the calls of a run: no object-store call is made before
  the first command that starts the compose project.\<close>

definition restart_before_upload :: "event list \<Rightarrow> bool" where
  "restart_before_upload evs \<longleftrightarrow>
     filter is_object_store (takeWhile (\<lambda>e. \<not> is_compose_up e) evs) = []"




section \<open>Concrete inputs\<close>

text \<open>A scheduler environment in which every schedule expression parses and every
  crontab text is installed, and a nightly task for a given identifier.\<close>

definition cron_ok :: cron_env where
  "cron_ok = \<lparr>cron_Parse = (\<lambda>spec. None), crontab_install = (\<lambda>text. None)\<rparr>"

definition nightly :: "int \<Rightarrow> Task" where
  "nightly i =
     \<lparr>TaskID = i, SourcePath = ''/data'', CreateArchive = True, ArchiveFormat = ''tar.gz'',
      S3Endpoint = [], S3AccessKey = [], S3SecretKey = [], S3Bucket = [], S3Region = [],
      StorageType = [], StorageConfig = [], CleanupEnabled = False, CleanupDays = 0,
      IsDockerCompose = False, DockerComposePath = [], ScheduleCron = ''0 0 3 * * *''\<rparr>"

text \<open>A source tree with two regular files and a symbolic link, and one in which a name
  cannot be stat'ed and a directory cannot be listed.\<close>

definition data_tree :: fsnode where
  "data_tree = Dir [(''a.txt'', Regular), (''sub'', Dir [(''b.txt'', Regular), (''link'', Special)])]"

definition rough_tree :: fsnode where
  "rough_tree =
     Dir [(''a.txt'', Regular),
          (''gone'', NoStat ''lstat /rough/gone: no such file or directory''),
          (''locked'', UnreadableDir ''open /rough/locked: permission denied''),
          (''sub'', Dir [(''b.txt'', Regular), (''link'', Special)])]"

text \<open>An outside world in which every call succeeds: the bucket exists and holds one old
  object, the archive is 2 MiB large.\<close>

definition calm_env :: backup_env where
  "calm_env =
     \<lparr>exec_Run = (\<lambda>name args dir. None),
      os_Lstat = (\<lambda>p. if p = ''/data'' then data_tree
                       else if p = ''/rough'' then rough_tree
                       else NoStat ''no such file or directory''),
      os_Create = (\<lambda>p. None),
      os_Open = (\<lambda>p. None),
      os_Stat = (\<lambda>p. Inr 2097152),
      os_Remove = (\<lambda>p. None),
      os_MkdirAll = (\<lambda>p. None),
      os_WriteFile = (\<lambda>p rs. Written),
      io_Copy = (\<lambda>p. None),
      tar_FileInfoHeader = (\<lambda>p. None),
      tar_WriteHeader = (\<lambda>p. None),
      filepath_Rel = (\<lambda>b p. if p = b then Inr ''.'' else Inr (drop (length b + 1) p)),
      minio_New = (\<lambda>endpoint secure. None),
      s3_BucketExists = (\<lambda>b. Inr True),
      s3_MakeBucket = (\<lambda>b r. None),
      s3_FPutObject = (\<lambda>b k p. None),
      s3_ListObjects = (\<lambda>b. [\<lparr>Key = ''old.tar.gz'', LastModified = 100, Err = None\<rparr>]),
      s3_RemoveObject = (\<lambda>b k. None),
      now_createArchive = ''20240101_030000'',
      now_BackupDate = 1704078000,
      now_uploadDate = 1704078060,
      now_uploadDirectory = ''20240101_030100'',
      now_cleanup = 1704078120,
      time_AddDate = (\<lambda>t days. t + days * 86400)\<rparr>"


definition race_env :: backup_env where
  "race_env =
     calm_env\<lparr>s3_BucketExists := (\<lambda>b. Inr False),
              s3_MakeBucket := (\<lambda>b r. Some ''Your previous request to create the named bucket succeeded and you already own it.'')\<rparr>"


text \<open>A task with everything switched on, and the world before its run: nothing called,
  nothing logged, no archive file, no ledger.\<close>

definition demo_task :: Task where
  "demo_task =
     \<lparr>TaskID = 1, SourcePath = ''/data'', CreateArchive = True, ArchiveFormat = ''tar.gz'',
      S3Endpoint = ''https://s3.example.com'', S3AccessKey = ''key'', S3SecretKey = ''secret'',
      S3Bucket = ''backups'', S3Region = ''us-east-1'', StorageType = ''s3'', StorageConfig = [],
      CleanupEnabled = True, CleanupDays = 7, IsDockerCompose = True,
      DockerComposePath = ''/srv/app/docker-compose.yml'', ScheduleCron = ''0 0 3 * * *''\<rparr>"

definition world0 :: world where
  "world0 = \<lparr>trace = [], logged = [], disk = Map.empty, ledger = None\<rparr>"






section \<open>Properties of the scheduler\<close>

subsection \<open>The job table\<close>

lemma logf_fields [simp]:
  "cron_entries (logf l m cm) = cron_entries cm"
  "cron_nextID (logf l m cm) = cron_nextID cm"
  "entries (logf l m cm) = entries cm"
  "crontab (logf l m cm) = crontab cm"
  by (simp_all add: logf_def)

lemma updateSystemCron_fields [simp]:
  "cron_entries (updateSystemCron env task cm) = cron_entries cm"
  "cron_nextID (updateSystemCron env task cm) = cron_nextID cm"
  "entries (updateSystemCron env task cm) = entries cm"
  by (simp_all add: updateSystemCron_def Let_def split: option.splits)

lemma removeFromSystemCron_fields [simp]:
  "cron_entries (removeFromSystemCron env taskID cm) = cron_entries cm"
  "cron_nextID (removeFromSystemCron env taskID cm) = cron_nextID cm"
  "entries (removeFromSystemCron env taskID cm) = entries cm"
  by (simp_all add: removeFromSystemCron_def Let_def split: option.splits)








lemma retire_fields [simp]:
  "cron_nextID (retire t cm) = cron_nextID cm"
  "entries (retire t cm) = entries cm"
  by (simp_all add: retire_def cron_Remove_def split: option.splits)













subsection \<open>The system crontab\<close>

text \<open>
  Claim C4. The marker of a task is the text \<open>--task-id N\<close>, and a line is dropped when it
  contains the marker anywhere, so the marker of task 1 also matches the line of task 12.
  Adding task 12 and then task 1 to a fresh scheduler with an empty crontab leaves a
  crontab with the line of task 1 only: the line of task 12 is gone, although the trigger
  of task 12 is still live in the engine.
\<close>

theorem AddTask_drops_line_of_other_task:
  "crontab (AddTask cron_ok (nightly 12) (New [])) =
     ''\<newline>0 3 * * * /usr/bin/backup-server-agent --task-id 12\<newline>'' \<and>
   crontab (AddTask cron_ok (nightly 1) (AddTask cron_ok (nightly 12) (New []))) =
     ''\<newline>\<newline>0 3 * * * /usr/bin/backup-server-agent --task-id 1\<newline>'' \<and>
   map fst (live_triggers 12 (AddTask cron_ok (nightly 1) (AddTask cron_ok (nightly 12) (New [])))) = [1]"
  by code_simp

section \<open>Properties of the ledger\<close>




lemma emit_fields [simp]:
  "trace (emit e w) = trace w @ [e]"
  "logged (emit e w) = logged w"
  "disk (emit e w) = disk w"
  "ledger (emit e w) = ledger w"
  by (simp_all add: emit_def)

lemma logw_fields [simp]:
  "trace (logw l m w) = trace w"
  "logged (logw l m w) = logged w @ [(l, m)]"
  "disk (logw l m w) = disk w"
  "ledger (logw l m w) = ledger w"
  by (simp_all add: logw_def)



section \<open>Properties of the backup run\<close>

subsection \<open>Counting files\<close>

lemma walk_count_entry:
  "walk count_entry p n c = (None, c + int (regular_files n))"
  "walk_names count_entry p names c = (None, c + int (regular_files_in names))"
  by (induct n and names arbitrary: p c and p c rule: regular_files_regular_files_in.induct)
     (simp_all add: count_entry_def)

text \<open>
  Claim C10. \<open>countFiles\<close> returns a count for every path and has no error to report:
  the walk it runs never ends early (its callback returns no error, and so does the walk),
  the count is the number of regular files that can be reached from the path through
  directories that can be listed and names that can be stat'ed, it is not negative, and it
  is 0 for a path that cannot be stat'ed, such as a missing one.
\<close>

theorem countFiles_counts_reachable_regular_files:
  "countFiles env path = int (regular_files (os_Lstat env path)) \<and>
   0 \<le> countFiles env path \<and>
   fst (filepath_Walk env path count_entry 0) = None \<and>
   (\<forall>e. os_Lstat env path = NoStat e \<longrightarrow> countFiles env path = 0)"
  by (simp add: countFiles_def filepath_Walk_def walk_count_entry count_entry_def)

theorem countFiles_counts_reachable_regular_files_witness:
  "os_Lstat calm_env ''/missing'' = NoStat ''no such file or directory'' \<and>
   countFiles calm_env ''/missing'' = 0 \<and>
   countFiles calm_env ''/rough'' = 2"
  using countFiles_counts_reachable_regular_files [of calm_env "''/missing''"]
        countFiles_counts_reachable_regular_files [of calm_env "''/rough''"]
  by (simp add: calm_env_def rough_tree_def)

subsection \<open>Calls and what they leave alone\<close>

lemma extends_refl [simp]: "extends P w w"
  by (simp add: extends_def)

lemma extends_trans: "extends P w w1 \<Longrightarrow> extends P w1 w2 \<Longrightarrow> extends P w w2"
  by (auto simp: extends_def)

lemma extends_mono: "extends P w w' \<Longrightarrow> (\<And>e. P e \<Longrightarrow> Q e) \<Longrightarrow> extends Q w w'"
  by (auto simp: extends_def list_all_iff)

lemma extends_emit: "P e \<Longrightarrow> extends P w w' \<Longrightarrow> extends P w (emit e w')"
  by (auto simp: extends_def)

lemma extends_logw [simp]: "extends P w (logw l m w') = extends P w w'"
  by (simp add: extends_def)

lemma extends_same_trace: "trace w2 = trace w1 \<Longrightarrow> extends P w w1 \<Longrightarrow> extends P w w2"
  by (simp add: extends_def)

text \<open>The walk of the directory upload.\<close>

lemma upload_entry_extends:
  "extends is_put w (snd (upload_entry env task src base ts p info err w))"
  by (auto simp: upload_entry_def Let_def extends_emit split: option.splits sum.splits)

lemma upload_entry_frame:
  "disk (snd (upload_entry env task src base ts p info err w)) = disk w"
  "ledger (snd (upload_entry env task src base ts p info err w)) = ledger w"
  by (auto simp: upload_entry_def Let_def split: option.splits sum.splits)

lemma walk_preserves:
  assumes step: "\<And>p info err s. R s (snd (fn p info err s))"
      and refl: "\<And>s. R s s"
      and trans: "\<And>a b c. R a b \<Longrightarrow> R b c \<Longrightarrow> R a c"
  shows "R s (snd (walk fn p n s))"
    and "R s (snd (walk_names fn p names s))"
proof (induct n and names arbitrary: p s and p s rule: regular_files_regular_files_in.induct)
  case (5 names)
  obtain e1 s1 where f: "fn p (Some IsDir) None s = (e1, s1)"
    by (cases "fn p (Some IsDir) None s")
  have a: "R s s1" using step [of s p "Some IsDir" None] f by simp
  show ?case
  proof (cases e1)
    case None
    have "R s1 (snd (walk_names fn p names s1))" by (rule 5)
    with a have "R s (snd (walk_names fn p names s1))" by (rule trans)
    with f None show ?thesis by simp
  next
    case (Some e)
    with f a show ?thesis by simp
  qed
next
  case (7 entry names)
  obtain e1 s1 where f: "walk fn (filepath_Join p (fst entry)) (snd entry) s = (e1, s1)"
    by (cases "walk fn (filepath_Join p (fst entry)) (snd entry) s")
  have a: "R s s1" using 7(1) [of s "filepath_Join p (fst entry)"] f by simp
  show ?case
  proof (cases e1)
    case None
    have "R s1 (snd (walk_names fn p names s1))" by (rule 7(2))
    with a have "R s (snd (walk_names fn p names s1))" by (rule trans)
    with f None show ?thesis by simp
  next
    case (Some e)
    with f a show ?thesis by simp
  qed
qed (simp_all add: step refl)

lemma walk_upload_extends:
  "extends is_put w (snd (walk (upload_entry env task src base ts) p n w))"
  by (rule walk_preserves(1) [where R = "extends is_put"])
     (auto intro: upload_entry_extends extends_trans)

lemma walk_upload_frame:
  "disk (snd (walk (upload_entry env task src base ts) p n w)) = disk w \<and>
   ledger (snd (walk (upload_entry env task src base ts) p n w)) = ledger w"
  by (rule walk_preserves(1) [where R = "\<lambda>w w'. disk w' = disk w \<and> ledger w' = ledger w"])
     (simp_all add: upload_entry_frame)

lemma delete_old_extends: "extends is_remove_object w (delete_old env b object w)"
  by (auto simp: delete_old_def Let_def extends_def split: option.splits)

lemma delete_old_frame [simp]:
  "disk (delete_old env b object w) = disk w"
  "ledger (delete_old env b object w) = ledger w"
  by (auto simp: delete_old_def Let_def split: option.splits)

lemma sweep_extends: "extends is_remove_object w (sweep env b c objs w)"
  by (induction objs arbitrary: w) (auto intro: extends_trans delete_old_extends)

lemma sweep_frame [simp]:
  "disk (sweep env b c objs w) = disk w"
  "ledger (sweep env b c objs w) = ledger w"
  by (induction objs arbitrary: w) auto

lemma ensure_bucket_trace:
  "trace (snd (ensure_bucket env task w)) =
     trace w @ S3BucketExists (S3Bucket task) #
       (if s3_BucketExists env (S3Bucket task) = Inr False
        then [S3MakeBucket (S3Bucket task) (S3Region task)] else [])"
  by (auto simp: ensure_bucket_def Let_def split: sum.splits option.splits)

lemma ensure_bucket_frame [simp]:
  "disk (snd (ensure_bucket env task w)) = disk w"
  "ledger (snd (ensure_bucket env task w)) = ledger w"
  by (auto simp: ensure_bucket_def Let_def split: sum.splits option.splits)




lemma cleanupOldBackups_trace:
  assumes "s3_client env task = None"
  shows "\<exists>removes. trace (snd (cleanupOldBackups env task w)) =
            trace w @ S3ListObjects (S3Bucket task) # removes \<and> list_all is_remove_object removes"
proof -
  let ?w2 = "emit (S3ListObjects (S3Bucket task))
               (logw INFO (''Cleaning up backups older than '' @ fmt_d (CleanupDays task) @ '' days'') w)"
  let ?c = "time_AddDate env (now_cleanup env) (- CleanupDays task)"
  obtain removes where
    "trace (sweep env (S3Bucket task) ?c (s3_ListObjects env (S3Bucket task)) ?w2) = trace ?w2 @ removes"
    "list_all is_remove_object removes"
    using sweep_extends [of ?w2 env "S3Bucket task" ?c "s3_ListObjects env (S3Bucket task)"]
    by (auto simp: extends_def)
  then show ?thesis
    using assms by (intro exI [of _ removes]) (simp add: cleanupOldBackups_def Let_def)
qed


subsection \<open>The bucket check\<close>




text \<open>
  Claim C5, as amended. In both upload entry points, when the bucket is reported absent
  and its creation fails, whatever the failure is (that the bucket exists by now
  included), the entry point returns the error \<open>failed to create bucket: ...\<close> and
  writes no object: its calls are the bucket check and the creation, nothing else.
\<close>

theorem bucket_race_is_an_error:
  "s3_client env task = None \<Longrightarrow>
   s3_BucketExists env (S3Bucket task) = Inr False \<Longrightarrow>
   s3_MakeBucket env (S3Bucket task) (S3Region task) = Some e \<Longrightarrow>
     fst (uploadToS3 env task archivePath w) = ([], Some (''failed to create bucket: '' @ e)) \<and>
     trace (snd (uploadToS3 env task archivePath w)) =
       trace w @ [S3BucketExists (S3Bucket task), S3MakeBucket (S3Bucket task) (S3Region task)] \<and>
     fst (uploadDirectoryToS3 env task sourcePath w) = ([], Some (''failed to create bucket: '' @ e)) \<and>
     trace (snd (uploadDirectoryToS3 env task sourcePath w)) =
       trace w @ [S3BucketExists (S3Bucket task), S3MakeBucket (S3Bucket task) (S3Region task)]"
  by (simp add: uploadToS3_def uploadDirectoryToS3_def ensure_bucket_def Let_def)

theorem bucket_race_is_an_error_witness:
  "s3_client race_env demo_task = None \<and>
   s3_BucketExists race_env (S3Bucket demo_task) = Inr False \<and>
   s3_MakeBucket race_env (S3Bucket demo_task) (S3Region demo_task) =
     Some ''Your previous request to create the named bucket succeeded and you already own it.'' \<and>
   fst (uploadDirectoryToS3 race_env demo_task ''/data'' world0) =
     ([], Some ''failed to create bucket: Your previous request to create the named bucket succeeded and you already own it.'') \<and>
   trace (snd (uploadDirectoryToS3 race_env demo_task ''/data'' world0)) =
     [S3BucketExists ''backups'', S3MakeBucket ''backups'' ''us-east-1'']"
proof -
  have c: "s3_client race_env demo_task = None"
    by (simp add: s3_client_def race_env_def calm_env_def)
  have b: "s3_BucketExists race_env (S3Bucket demo_task) = Inr False"
    by (simp add: race_env_def calm_env_def)
  have m: "s3_MakeBucket race_env (S3Bucket demo_task) (S3Region demo_task) =
     Some ''Your previous request to create the named bucket succeeded and you already own it.''"
    by (simp add: race_env_def calm_env_def)
  have names: "S3Bucket demo_task = ''backups''" "S3Region demo_task = ''us-east-1''"
    by (simp_all add: demo_task_def)
  have t: "trace world0 = []"
    by (simp add: world0_def)
  show ?thesis
    using bucket_race_is_an_error [OF c b m, of "''/tmp/x.tar.gz''" world0 "''/data''"] c b m names t
    by simp
qed

text \<open>The claim as it was stated fails: with the bucket reported absent and its creation
  refused because the bucket exists by then, \<open>uploadToS3\<close> returns the error and uploads
  nothing.\<close>

theorem bucket_race_not_tolerated:
  "s3_BucketExists race_env (S3Bucket demo_task) = Inr False \<and>
   s3_MakeBucket race_env (S3Bucket demo_task) (S3Region demo_task) =
     Some ''Your previous request to create the named bucket succeeded and you already own it.'' \<and>
   snd (fst (uploadToS3 race_env demo_task ''/tmp/x.tar.gz'' world0)) =
     Some ''failed to create bucket: Your previous request to create the named bucket succeeded and you already own it.'' \<and>
   filter is_put (trace (snd (uploadToS3 race_env demo_task ''/tmp/x.tar.gz'' world0))) = []"
  by code_simp

subsection \<open>The steps of a run\<close>


lemma run_cmd_simps [simp]:
  "fst (run_cmd env name args dir w) = exec_Run env name args dir"
  "snd (run_cmd env name args dir w) = emit (Exec name args dir) w"
  by (simp_all add: run_cmd_def)

lemma compose_up_trace:
  "\<exists>ups. trace (compose_up env task w) = trace w @ ups \<and> ups \<noteq> [] \<and> list_all is_compose_up ups"
  by (auto simp: compose_up_def run_cmd_def Let_def split: option.splits)

lemma compose_down_trace:
  "\<exists>downs. trace (compose_down env task w) = trace w @ downs \<and> downs \<noteq> [] \<and> list_all is_compose_down downs"
  by (auto simp: compose_down_def run_cmd_def Let_def split: option.splits)

lemma compose_frame [simp]:
  "disk (compose_up env task w) = disk w"
  "ledger (compose_up env task w) = ledger w"
  "disk (compose_down env task w) = disk w"
  "ledger (compose_down env task w) = ledger w"
  by (auto simp: compose_up_def compose_down_def run_cmd_def Let_def split: option.splits)

lemma enter_leave_frame [simp]:
  "disk (enter env task w) = disk w"
  "ledger (enter env task w) = ledger w"
  "disk (leave env task w) = disk w"
  "ledger (leave env task w) = ledger w"
  by (simp_all add: enter_def leave_def)







lemma createArchive_extends:
  "extends is_local_change w (snd (createArchive env src fmt ip w))"
  by (auto simp: createArchive_def Let_def extends_def split: option.splits prod.splits)

lemma createArchive_ledger [simp]:
  "ledger (snd (createArchive env src fmt ip w)) = ledger w"
  by (auto simp: createArchive_def Let_def split: option.splits prod.splits)

text \<open>Ledger writes.\<close>

lemma write_ledger_extends: "extends is_local_change w (snd (write_ledger env rs w))"
  by (auto simp: write_ledger_def Let_def extends_def split: write_result.splits)

lemma write_ledger_disk [simp]: "disk (snd (write_ledger env rs w)) = disk w"
  by (auto simp: write_ledger_def Let_def split: write_result.splits)

lemma SaveBackupRecord_extends: "extends is_local_change w (snd (SaveBackupRecord env r w))"
  by (auto simp: SaveBackupRecord_def Let_def write_ledger_extends split: option.splits)



lemma UpdateBackupRecord_extends:
  "extends is_local_change w (snd (UpdateBackupRecord env n p t w))"
  by (auto simp: UpdateBackupRecord_def write_ledger_extends split: option.splits prod.splits)

lemma UpdateBackupRecord_disk [simp]: "disk (snd (UpdateBackupRecord env n p t w)) = disk w"
  by (auto simp: UpdateBackupRecord_def split: option.splits prod.splits)




lemma archive_step_extends:
  "extends is_local_change w (snd (archive_step env task ip result w))"
proof (cases "CreateArchive task")
  case False
  then show ?thesis by (simp add: archive_step_def)
next
  case True
  obtain p n e wc where c: "createArchive env (SourcePath task) (ArchiveFormat task) ip w = ((p, n, e), wc)"
    by (cases "createArchive env (SourcePath task) (ArchiveFormat task) ip w") auto
  have 1: "extends is_local_change w wc"
    using createArchive_extends [of w env "SourcePath task" "ArchiveFormat task" ip] c by simp
  show ?thesis
  proof (cases e)
    case (Some err)
    with True c 1 show ?thesis by (simp add: archive_step_def)
  next
    case None
    let ?r = "\<lparr>RecSourcePath = SourcePath task, ArchiveName = n,
               BackupDate = now_BackupDate env, S3UploadDate = None,
               ArchiveSizeMB = 0, RecS3Path = [], Status = ''creating''\<rparr>"
    have 2: "extends is_local_change wc (snd (SaveBackupRecord env ?r wc))"
      by (rule SaveBackupRecord_extends)
    have "trace (snd (archive_step env task ip result w)) = trace (snd (SaveBackupRecord env ?r wc))"
      using True c None
      by (auto simp: archive_step_def Let_def split: prod.splits option.splits sum.splits)
    then show ?thesis
      using extends_trans [OF 1 2] by (simp add: extends_def)
  qed
qed


text \<open>The object store.\<close>

lemma kinds_not_exec:
  "is_object_store x \<Longrightarrow> \<not> is_exec x"
  "is_local_change x \<Longrightarrow> \<not> is_exec x"
  "is_put x \<Longrightarrow> is_object_store x"
  "is_remove_object x \<Longrightarrow> is_object_store x"
  by (cases x; simp)+


lemma ensure_bucket_extends: "extends is_object_store w (snd (ensure_bucket env task w))"
  by (simp add: extends_def ensure_bucket_trace)


lemma uploadToS3_extends: "extends is_object_store w (snd (uploadToS3 env task p w))"
proof -
  let ?w1 = "logw INFO (''Uploading to S3: '' @ S3Endpoint task @ ''/'' @ S3Bucket task) w"
  obtain e w2 where eb: "ensure_bucket env task ?w1 = (e, w2)"
    by (cases "ensure_bucket env task ?w1")
  have "w2 = snd (ensure_bucket env task ?w1)" by (simp only: eb snd_conv)
  then have "extends is_object_store ?w1 w2" by (simp only: ensure_bucket_extends)
  then have 1: "extends is_object_store w w2" by (simp add: extends_def)
  then have 2: "extends is_object_store w (emit (S3PutObject (S3Bucket task) (filepath_Base p) p) w2)"
    by (auto simp: extends_def)
  show ?thesis
    using eb 1 2 by (auto simp: uploadToS3_def Let_def split: option.splits)
qed





lemma uploadDirectoryToS3_extends:
  "extends is_object_store w (snd (uploadDirectoryToS3 env task p w))"
proof -
  let ?w1 = "logw INFO (''Uploading directory to S3: '' @ S3Endpoint task @ ''/'' @ S3Bucket task) w"
  let ?fn = "upload_entry env task p (filepath_Base p) (now_uploadDirectory env)"
  obtain e w2 where eb: "ensure_bucket env task ?w1 = (e, w2)"
    by (cases "ensure_bucket env task ?w1")
  have "w2 = snd (ensure_bucket env task ?w1)" by (simp only: eb snd_conv)
  then have "extends is_object_store ?w1 w2" by (simp only: ensure_bucket_extends)
  then have 1: "extends is_object_store w w2" by (simp add: extends_def)
  obtain e3 w3 where wk: "filepath_Walk env p ?fn w2 = (e3, w3)"
    by (cases "filepath_Walk env p ?fn w2")
  have "extends is_put w2 (snd (filepath_Walk env p ?fn w2))"
    unfolding filepath_Walk_def by (rule walk_upload_extends)
  then have "extends is_put w2 w3" by (simp only: wk snd_conv)
  then have "extends is_object_store w2 w3" by (rule extends_mono) (rule kinds_not_exec)
  with 1 have 2: "extends is_object_store w w3" by (rule extends_trans)
  show ?thesis
    using eb wk 1 2 by (auto simp: uploadDirectoryToS3_def Let_def split: option.splits)
qed

lemma cleanupOldBackups_extends:
  "extends is_object_store w (snd (cleanupOldBackups env task w))"
proof (cases "s3_client env task")
  case (Some e)
  then show ?thesis by (simp add: cleanupOldBackups_def Let_def extends_def)
next
  case None
  from cleanupOldBackups_trace [OF None, of w] obtain removes where
    "trace (snd (cleanupOldBackups env task w)) = trace w @ S3ListObjects (S3Bucket task) # removes"
    "list_all is_remove_object removes" by blast
  then show ?thesis
    by (auto simp: extends_def list_all_iff kinds_not_exec)
qed

lemma cleanupOldBackups_frame [simp]:
  "disk (snd (cleanupOldBackups env task w)) = disk w"
  "ledger (snd (cleanupOldBackups env task w)) = ledger w"
  by (auto simp: cleanupOldBackups_def Let_def split: option.splits)

lemma cleanup_step_extends: "extends is_object_store w (cleanup_step env task w)"
proof (cases "CleanupEnabled task")
  case False
  then show ?thesis by (simp add: cleanup_step_def)
next
  case True
  obtain e w1 where c: "cleanupOldBackups env task w = (e, w1)"
    by (cases "cleanupOldBackups env task w")
  have "w1 = snd (cleanupOldBackups env task w)" by (simp only: c snd_conv)
  then have "extends is_object_store w w1" by (simp only: cleanupOldBackups_extends)
  with True c show ?thesis by (cases e) (simp_all add: cleanup_step_def)
qed



lemma upload_step_extends:
  "extends (\<lambda>e. \<not> is_exec e) w (snd (upload_step env task name res w))"
proof (cases "S3Endpoint task \<noteq> [] \<and> S3Bucket task \<noteq> []")
  case False
  then show ?thesis by (auto simp: upload_step_def)
next
  case conf: True
  show ?thesis
  proof (cases "ArchivePath res \<noteq> []")
    case False
    obtain r w1 where u: "uploadDirectoryToS3 env task (SourcePath task) w = (r, w1)"
      by (cases "uploadDirectoryToS3 env task (SourcePath task) w")
    have "w1 = snd (uploadDirectoryToS3 env task (SourcePath task) w)" by (simp only: u snd_conv)
    then have "extends is_object_store w w1" by (simp only: uploadDirectoryToS3_extends)
    then have "extends (\<lambda>e. \<not> is_exec e) w w1" by (rule extends_mono) (rule kinds_not_exec)
    then show ?thesis
      using conf False u by (auto simp: upload_step_def split: prod.splits option.splits)
  next
    case True
    obtain s3Path e w1 where u: "uploadToS3 env task (ArchivePath res) w = ((s3Path, e), w1)"
      by (cases "uploadToS3 env task (ArchivePath res) w") auto
    have "w1 = snd (uploadToS3 env task (ArchivePath res) w)" by (simp only: u snd_conv)
    then have "extends is_object_store w w1" by (simp only: uploadToS3_extends)
    then have 1: "extends (\<lambda>e. \<not> is_exec e) w w1" by (rule extends_mono) (rule kinds_not_exec)
    show ?thesis
    proof (cases e)
      case (Some err)
      with conf True u 1 show ?thesis by (simp add: upload_step_def)
    next
      case None
      obtain ue w2 where up: "UpdateBackupRecord env name s3Path (now_uploadDate env) w1 = (ue, w2)"
        by (cases "UpdateBackupRecord env name s3Path (now_uploadDate env) w1")
      have "w2 = snd (UpdateBackupRecord env name s3Path (now_uploadDate env) w1)"
        by (simp only: up snd_conv)
      then have "extends is_local_change w1 w2" by (simp only: UpdateBackupRecord_extends)
      then have "extends (\<lambda>e. \<not> is_exec e) w1 w2" by (rule extends_mono) (rule kinds_not_exec)
      with 1 have 2: "extends (\<lambda>e. \<not> is_exec e) w w2" by (rule extends_trans)
      then have 3: "extends (\<lambda>e. \<not> is_exec e) w (emit (OsRemove (ArchivePath res)) w2)"
        by (auto simp: extends_def)
      have "trace (snd (upload_step env task name res w)) = trace (emit (OsRemove (ArchivePath res)) w2)"
        using conf True u None up
        by (auto simp: upload_step_def Let_def split: option.splits)
      with 3 show ?thesis by (simp add: extends_def)
    qed
  qed
qed

lemma ExecuteBackup_body_extends:
  "extends (\<lambda>e. \<not> is_exec e) w (snd (ExecuteBackup_body env task ip w))"
proof -
  obtain res name e w1 where a: "archive_step env task ip empty_result w = ((res, name, e), w1)"
    by (cases "archive_step env task ip empty_result w") auto
  have "w1 = snd (archive_step env task ip empty_result w)" by (simp only: a snd_conv)
  then have "extends is_local_change w w1" by (simp only: archive_step_extends)
  then have 1: "extends (\<lambda>e. \<not> is_exec e) w w1" by (rule extends_mono) (rule kinds_not_exec)
  show ?thesis
  proof (cases e)
    case (Some err)
    with a 1 show ?thesis by (simp add: ExecuteBackup_body_def)
  next
    case None
    obtain res1 e1 w2 where u: "upload_step env task name res w1 = ((res1, e1), w2)"
      by (cases "upload_step env task name res w1") auto
    have "w2 = snd (upload_step env task name res w1)" by (simp only: u snd_conv)
    then have "extends (\<lambda>e. \<not> is_exec e) w1 w2" by (simp only: upload_step_extends)
    with 1 have 2: "extends (\<lambda>e. \<not> is_exec e) w w2" by (rule extends_trans)
    show ?thesis
    proof (cases e1)
      case (Some err)
      with a None u 2 show ?thesis by (simp add: ExecuteBackup_body_def)
    next
      case n1: None
      have "extends is_object_store w2 (cleanup_step env task w2)" by (rule cleanup_step_extends)
      then have "extends (\<lambda>e. \<not> is_exec e) w2 (cleanup_step env task w2)"
        by (rule extends_mono) (rule kinds_not_exec)
      with 2 have "extends (\<lambda>e. \<not> is_exec e) w (cleanup_step env task w2)" by (rule extends_trans)
      with a None u n1 show ?thesis by (simp add: ExecuteBackup_body_def)
    qed
  qed
qed

subsection \<open>The run of the demonstration task in the calm world\<close>

text \<open>The result, the calls, the ledger and the archive file after the run, computed
  once.\<close>

lemma calm_run:
  "(let r = ExecuteBackup calm_env demo_task ''10.0.0.5'' world0
    in (fst r, trace (snd r), ledger (snd r),
        disk (snd r) ''/tmp/10.0.0.5_data_20240101_030000.tar.gz'')) =
   ((\<lparr>Success = True, ArchivePath = ''/tmp/10.0.0.5_data_20240101_030000.tar.gz'',
      ArchiveSize = 2097152, FilesCount = 2, ErrorMsg = [],
      ResS3Path = ''s3://backups/10.0.0.5_data_20240101_030000.tar.gz''\<rparr>, None),
    [Exec ''docker'' [''compose'', ''-f'', ''/srv/app/docker-compose.yml'', ''down''] ''/srv/app'',
     OsCreate ''/tmp/10.0.0.5_data_20240101_030000.tar.gz'',
     OsWriteFile ''/var/lib/backup-server-agent/backups.json'',
     S3BucketExists ''backups'',
     S3PutObject ''backups'' ''10.0.0.5_data_20240101_030000.tar.gz''
       ''/tmp/10.0.0.5_data_20240101_030000.tar.gz'',
     OsWriteFile ''/var/lib/backup-server-agent/backups.json'',
     OsRemove ''/tmp/10.0.0.5_data_20240101_030000.tar.gz'',
     S3ListObjects ''backups'',
     S3RemoveObject ''backups'' ''old.tar.gz'',
     Exec ''docker'' [''compose'', ''-f'', ''/srv/app/docker-compose.yml'', ''up'', ''-d''] ''/srv/app''],
    Some (Json [\<lparr>RecSourcePath = ''/data'', ArchiveName = ''10.0.0.5_data_20240101_030000.tar.gz'',
                  BackupDate = 1704078000, S3UploadDate = Some 1704078060, ArchiveSizeMB = 0,
                  RecS3Path = ''s3://backups/10.0.0.5_data_20240101_030000.tar.gz'',
                  Status = ''success''\<rparr>]),
    None)"
  by code_simp

lemma calm_trace:
  "trace (snd (ExecuteBackup calm_env demo_task ''10.0.0.5'' world0)) =
    [Exec ''docker'' [''compose'', ''-f'', ''/srv/app/docker-compose.yml'', ''down''] ''/srv/app'',
     OsCreate ''/tmp/10.0.0.5_data_20240101_030000.tar.gz'',
     OsWriteFile ''/var/lib/backup-server-agent/backups.json'',
     S3BucketExists ''backups'',
     S3PutObject ''backups'' ''10.0.0.5_data_20240101_030000.tar.gz''
       ''/tmp/10.0.0.5_data_20240101_030000.tar.gz'',
     OsWriteFile ''/var/lib/backup-server-agent/backups.json'',
     OsRemove ''/tmp/10.0.0.5_data_20240101_030000.tar.gz'',
     S3ListObjects ''backups'',
     S3RemoveObject ''backups'' ''old.tar.gz'',
     Exec ''docker'' [''compose'', ''-f'', ''/srv/app/docker-compose.yml'', ''up'', ''-d''] ''/srv/app'']"
  using calm_run by (simp add: Let_def)

subsection \<open>The service guard\<close>

text \<open>
  Claim C2, as amended. For every task with docker-lifecycle enabled and a compose path
  set, the service guard wraps the whole run, not the archive step alone: the calls of
  \<open>ExecuteBackup\<close> are the commands that stop the project, then the calls of the archive,
  upload and cleanup steps (none of which is a command), then the commands that start the
  project. So the restart is signaled after the upload and cleanup steps have run, when
  \<open>ExecuteBackup\<close> returns.
\<close>

theorem restart_follows_upload_and_cleanup:
  "IsDockerCompose task \<Longrightarrow> DockerComposePath task \<noteq> [] \<Longrightarrow>
     (\<exists>downs body ups.
        trace (snd (ExecuteBackup_body env task serverIP (compose_down env task w))) =
          trace w @ downs @ body \<and>
        trace (snd (ExecuteBackup env task serverIP w)) = trace w @ downs @ body @ ups \<and>
        downs \<noteq> [] \<and> list_all is_compose_down downs \<and>
        list_all (\<lambda>e. \<not> is_exec e) body \<and>
        ups \<noteq> [] \<and> list_all is_compose_up ups)"
proof -
  assume g: "IsDockerCompose task" "DockerComposePath task \<noteq> []"
  obtain downs where d: "trace (compose_down env task w) = trace w @ downs" "downs \<noteq> []"
      "list_all is_compose_down downs"
    using compose_down_trace [of env task w] by blast
  obtain r w1 where b: "ExecuteBackup_body env task serverIP (compose_down env task w) = (r, w1)"
    by (cases "ExecuteBackup_body env task serverIP (compose_down env task w)")
  have "w1 = snd (ExecuteBackup_body env task serverIP (compose_down env task w))"
    by (simp only: b snd_conv)
  then have "extends (\<lambda>e. \<not> is_exec e) (compose_down env task w) w1"
    by (simp only: ExecuteBackup_body_extends)
  then obtain body where bd: "trace w1 = trace (compose_down env task w) @ body"
      "list_all (\<lambda>e. \<not> is_exec e) body"
    by (auto simp: extends_def)
  obtain ups where u: "trace (compose_up env task w1) = trace w1 @ ups" "ups \<noteq> []"
      "list_all is_compose_up ups"
    using compose_up_trace [of env task w1] by blast
  have e: "snd (ExecuteBackup env task serverIP w) = compose_up env task w1"
    using g b by (simp add: ExecuteBackup_def)
  show ?thesis
    using d bd u e b by (intro exI [of _ downs] exI [of _ body] exI [of _ ups]) simp
qed

theorem restart_follows_upload_and_cleanup_witness:
  "IsDockerCompose demo_task \<and> DockerComposePath demo_task \<noteq> [] \<and>
   trace (snd (ExecuteBackup calm_env demo_task ''10.0.0.5'' world0)) =
     [Exec ''docker'' [''compose'', ''-f'', ''/srv/app/docker-compose.yml'', ''down''] ''/srv/app'',
      OsCreate ''/tmp/10.0.0.5_data_20240101_030000.tar.gz'',
      OsWriteFile ''/var/lib/backup-server-agent/backups.json'',
      S3BucketExists ''backups'',
      S3PutObject ''backups'' ''10.0.0.5_data_20240101_030000.tar.gz''
        ''/tmp/10.0.0.5_data_20240101_030000.tar.gz'',
      OsWriteFile ''/var/lib/backup-server-agent/backups.json'',
      OsRemove ''/tmp/10.0.0.5_data_20240101_030000.tar.gz'',
      S3ListObjects ''backups'',
      S3RemoveObject ''backups'' ''old.tar.gz'',
      Exec ''docker'' [''compose'', ''-f'', ''/srv/app/docker-compose.yml'', ''up'', ''-d''] ''/srv/app'']"
proof -
  have g: "IsDockerCompose demo_task" "DockerComposePath demo_task \<noteq> []"
    by (simp_all add: demo_task_def)
  note t = calm_trace
  show ?thesis
    using restart_follows_upload_and_cleanup [OF g, of calm_env "''10.0.0.5''" world0] g t
    by simp
qed

text \<open>The claim as it was stated fails: in the calm world the run of the demonstration
  task makes object-store calls before the first command that starts the project.\<close>

theorem upload_precedes_restart:
  "\<not> restart_before_upload (trace (snd (ExecuteBackup calm_env demo_task ''10.0.0.5'' world0)))"
  by (simp add: calm_trace restart_before_upload_def)

subsection \<open>The error a run returns\<close>

















subsection \<open>A failed upload\<close>






subsection \<open>The archive size in the ledger\<close>

text \<open>
  Claim C7. The size computed from the stat of the archive is written into a slice that is
  then dropped (lines 94 to 100 read the records, change one in memory and never save
  them), so it does not reach the ledger. In the calm world the archive of the
  demonstration task is 2097152 bytes (2 MB) large and its upload succeeds; the run
  returns that size in its result, and the record it leaves in the ledger has the upload
  fields and status \<open>success\<close>, and size 0.
\<close>

theorem archive_size_never_persisted:
  "fst (ExecuteBackup calm_env demo_task ''10.0.0.5'' world0) =
     (\<lparr>Success = True, ArchivePath = ''/tmp/10.0.0.5_data_20240101_030000.tar.gz'',
       ArchiveSize = 2097152, FilesCount = 2, ErrorMsg = [],
       ResS3Path = ''s3://backups/10.0.0.5_data_20240101_030000.tar.gz''\<rparr>, None) \<and>
   ledger (snd (ExecuteBackup calm_env demo_task ''10.0.0.5'' world0)) =
     Some (Json [\<lparr>RecSourcePath = ''/data'', ArchiveName = ''10.0.0.5_data_20240101_030000.tar.gz'',
                  BackupDate = 1704078000, S3UploadDate = Some 1704078060, ArchiveSizeMB = 0,
                  RecS3Path = ''s3://backups/10.0.0.5_data_20240101_030000.tar.gz'',
                  Status = ''success''\<rparr>])"
  using calm_run by (simp add: Let_def)

end
